theory Spec2Isabelle
  imports Main "HOL-Library.Word"
begin

section \<open>JavaScript strings\<close>

text \<open>
  A JavaScript string is a sequence of 16-bit code units. ASCII literals of the script are
  written with \<open>js\<close>. Error messages, which the script builds from ASCII literals only,
  are plain HOL strings; where the engine itself throws, the message is the first part of
  the one that V8 gives.
\<close>

type_synonym jsstring = "16 word list"

definition js :: "string \<Rightarrow> jsstring" where
  "js s = map of_char s"

datatype js_error =
    Error string
  | URIError string
  | TypeError string
  | SyntaxError string

fun message :: "js_error \<Rightarrow> string" where
  "message (Error m) = m"
| "message (URIError m) = m"
| "message (TypeError m) = m"
| "message (SyntaxError m) = m"

subsection \<open>The regular expressions of the script\<close>

text \<open>
  All three expressions carry the flag \<open>i\<close> and not \<open>u\<close>: a code unit from 128 on is never
  folded onto an ASCII one, so matching an ASCII pattern without regard to case is
  comparing after folding \<open>A\<close>..\<open>Z\<close> onto \<open>a\<close>..\<open>z\<close>.
\<close>

definition canon :: "16 word \<Rightarrow> 16 word" where
  "canon c = (if 0x41 \<le> c \<and> c \<le> 0x5A then c + 0x20 else c)"

text \<open>\<open>literal p s\<close>: the lower-case ASCII literal \<open>p\<close> at the head of \<open>s\<close>; gives the rest.\<close>

fun literal :: "string \<Rightarrow> jsstring \<Rightarrow> jsstring option" where
  "literal [] s = Some s"
| "literal (p # ps) [] = None"
| "literal (p # ps) (c # cs) = (if canon c = of_char p then literal ps cs else None)"

definition is_letter :: "16 word \<Rightarrow> bool" where
  "is_letter c = (0x61 \<le> canon c \<and> canon c \<le> 0x7A)"

definition is_digit :: "16 word \<Rightarrow> bool" where
  "is_digit c = (0x30 \<le> c \<and> c \<le> 0x39)"

definition is_line_terminator :: "16 word \<Rightarrow> bool" where
  "is_line_terminator c = (c = 0x0A \<or> c = 0x0D \<or> c = 0x2028 \<or> c = 0x2029)"

text \<open>
  \<open>^https?:\/\/\<close>. After \<open>http\<close> the optional \<open>s\<close> is taken when it is there; the
  alternative without it is tried as well, as the matcher would on backtracking.
\<close>

definition scheme :: "jsstring \<Rightarrow> jsstring option" where
  "scheme u =
     (case literal ''http'' u of
        None \<Rightarrow> None
      | Some r \<Rightarrow>
          (case literal ''s'' r of
             None \<Rightarrow> literal ''://'' r
           | Some r' \<Rightarrow>
               (case literal ''://'' r' of
                  Some t \<Rightarrow> Some t
                | None \<Rightarrow> literal ''://'' r)))"

text \<open>
  \<open>isWikipediaLink\<close>: \<open>/^https?:\/\/([a-z]+)\.wikipedia\.org/i\<close>. The group takes the
  longest run of letters: a shorter one is followed by a letter, where the pattern wants
  the dot.
\<close>

definition isWikipediaLink :: "jsstring \<Rightarrow> bool" where
  "isWikipediaLink link =
     (case scheme link of
        None \<Rightarrow> False
      | Some r \<Rightarrow>
          takeWhile is_letter r \<noteq> [] \<and>
          literal ''.wikipedia.org'' (dropWhile is_letter r) \<noteq> None)"

text \<open>
  \<open>isWikidataLink\<close>: \<open>/^https?:\/\/(www\.)?wikidata\.org\/wiki\/Q[0-9]+/i\<close>, with both
  alternatives of the optional group.
\<close>

definition wikidataTail :: "jsstring \<Rightarrow> bool" where
  "wikidataTail s =
     (case literal ''wikidata.org/wiki/q'' s of
        None \<Rightarrow> False
      | Some d \<Rightarrow> (case d of [] \<Rightarrow> False | c # _ \<Rightarrow> is_digit c))"

definition isWikidataLink :: "jsstring \<Rightarrow> bool" where
  "isWikidataLink link =
     (case scheme link of
        None \<Rightarrow> False
      | Some r \<Rightarrow>
          (case literal ''www.'' r of
             None \<Rightarrow> wikidataTail r
           | Some r' \<Rightarrow> wikidataTail r' \<or> wikidataTail r))"

subsection \<open>decodeURIComponent\<close>

text \<open>
  The built-in, after the abstract operation Decode of ECMAScript with an empty set of
  preserved escapes. \<open>None\<close> stands for the URIError it throws.
\<close>

definition hexval :: "16 word \<Rightarrow> nat option" where
  "hexval c =
     (if 0x30 \<le> c \<and> c \<le> 0x39 then Some (unat c - 48)
      else if 0x41 \<le> c \<and> c \<le> 0x46 then Some (unat c - 55)
      else if 0x61 \<le> c \<and> c \<le> 0x66 then Some (unat c - 87)
      else None)"

definition hexOctet :: "jsstring \<Rightarrow> nat \<Rightarrow> nat option" where
  "hexOctet s k =
     (if length s < k + 2 then None
      else (case hexval (s ! k) of
              None \<Rightarrow> None
            | Some h \<Rightarrow> (case hexval (s ! (k + 1)) of
                           None \<Rightarrow> None
                         | Some l \<Rightarrow> Some (16 * h + l))))"

definition leadingOnes :: "nat \<Rightarrow> nat" where
  "leadingOnes b =
     (if b < 0x80 then 0 else if b < 0xC0 then 1 else if b < 0xE0 then 2
      else if b < 0xF0 then 3 else if b < 0xF8 then 4 else 5)"

fun contBytes :: "jsstring \<Rightarrow> nat \<Rightarrow> nat \<Rightarrow> nat list option" where
  "contBytes s k 0 = Some []"
| "contBytes s k (Suc m) =
     (if length s < k + 3 then None
      else if s ! k \<noteq> 0x25 then None
      else (case hexOctet s (k + 1) of
              None \<Rightarrow> None
            | Some b \<Rightarrow> map_option ((#) b) (contBytes s (k + 3) m)))"

definition cont :: "nat \<Rightarrow> bool" where
  "cont b = (0x80 \<le> b \<and> b \<le> 0xBF)"

text \<open>The well-formed UTF-8 sequences of two, three and four octets, and their value.\<close>

fun utf8CodePoint :: "nat list \<Rightarrow> nat option" where
  "utf8CodePoint [b0, b1] =
     (if 0xC2 \<le> b0 \<and> b0 \<le> 0xDF \<and> cont b1
      then Some ((b0 - 0xC0) * 64 + (b1 - 0x80)) else None)"
| "utf8CodePoint [b0, b1, b2] =
     (if 0xE0 \<le> b0 \<and> b0 \<le> 0xEF
         \<and> (if b0 = 0xE0 then 0xA0 else 0x80) \<le> b1
         \<and> b1 \<le> (if b0 = 0xED then 0x9F else 0xBF) \<and> cont b2
      then Some ((b0 - 0xE0) * 4096 + (b1 - 0x80) * 64 + (b2 - 0x80)) else None)"
| "utf8CodePoint [b0, b1, b2, b3] =
     (if 0xF0 \<le> b0 \<and> b0 \<le> 0xF4
         \<and> (if b0 = 0xF0 then 0x90 else 0x80) \<le> b1
         \<and> b1 \<le> (if b0 = 0xF4 then 0x8F else 0xBF) \<and> cont b2 \<and> cont b3
      then Some ((b0 - 0xF0) * 262144 + (b1 - 0x80) * 4096 + (b2 - 0x80) * 64 + (b3 - 0x80))
      else None)"
| "utf8CodePoint _ = None"

definition utf16 :: "nat \<Rightarrow> jsstring" where
  "utf16 v =
     (if v < 0x10000 then [of_nat v]
      else [of_nat (0xD800 + (v - 0x10000) div 1024), of_nat (0xDC00 + (v - 0x10000) mod 1024)])"

function decodeFrom :: "jsstring \<Rightarrow> nat \<Rightarrow> jsstring option" where
  "decodeFrom s k =
     (if length s \<le> k then Some []
      else if s ! k \<noteq> 0x25 then map_option ((#) (s ! k)) (decodeFrom s (k + 1))
      else if length s < k + 3 then None
      else (case hexOctet s (k + 1) of
              None \<Rightarrow> None
            | Some b \<Rightarrow>
                if leadingOnes b = 0 then map_option ((#) (of_nat b)) (decodeFrom s (k + 3))
                else if leadingOnes b = 1 \<or> 4 < leadingOnes b then None
                else (case contBytes s (k + 3) (leadingOnes b - 1) of
                        None \<Rightarrow> None
                      | Some os \<Rightarrow>
                          (case utf8CodePoint (b # os) of
                             None \<Rightarrow> None
                           | Some v \<Rightarrow>
                               map_option ((@) (utf16 v))
                                 (decodeFrom s (k + 3 * leadingOnes b))))))"
  by pat_completeness auto
termination
  by (relation "measure (\<lambda>(s, k). length s - k)") auto

declare decodeFrom.simps [simp del]

definition decodeURIComponent :: "jsstring \<Rightarrow> js_error + jsstring" where
  "decodeURIComponent s =
     (case decodeFrom s 0 of
        None \<Rightarrow> Inl (URIError ''URI malformed'')
      | Some r \<Rightarrow> Inr r)"

subsection \<open>encodeURIComponent\<close>

text \<open>
  The built-in, after the abstract operation Encode of ECMAScript: the unreserved marks and
  the alphanumerics stay, every other code point is written as the escaped octets of its
  UTF-8 form, and a surrogate without its partner is a URIError (\<open>None\<close>).
\<close>

definition unescaped :: "16 word \<Rightarrow> bool" where
  "unescaped c =
     ((0x41 \<le> c \<and> c \<le> 0x5A) \<or> (0x61 \<le> c \<and> c \<le> 0x7A) \<or> (0x30 \<le> c \<and> c \<le> 0x39)
      \<or> c \<in> set (js ''-_.!~*()'') \<or> c = 0x27)"

definition hexDigit :: "nat \<Rightarrow> 16 word" where
  "hexDigit d = (if d < 10 then of_nat (48 + d) else of_nat (55 + d))"

definition escapeOctet :: "nat \<Rightarrow> jsstring" where
  "escapeOctet b = [0x25, hexDigit (b div 16), hexDigit (b mod 16)]"

definition utf8Encode :: "nat \<Rightarrow> nat list" where
  "utf8Encode v =
     (if v < 0x80 then [v]
      else if v < 0x800 then [0xC0 + v div 64, 0x80 + v mod 64]
      else if v < 0x10000 then [0xE0 + v div 4096, 0x80 + (v div 64) mod 64, 0x80 + v mod 64]
      else [0xF0 + v div 262144, 0x80 + (v div 4096) mod 64, 0x80 + (v div 64) mod 64,
            0x80 + v mod 64])"

definition escapeCodePoint :: "nat \<Rightarrow> jsstring" where
  "escapeCodePoint v = concat (map escapeOctet (utf8Encode v))"

definition is_lead :: "16 word \<Rightarrow> bool" where
  "is_lead c = (0xD800 \<le> c \<and> c \<le> 0xDBFF)"

definition is_trail :: "16 word \<Rightarrow> bool" where
  "is_trail c = (0xDC00 \<le> c \<and> c \<le> 0xDFFF)"

fun encodeFrom :: "jsstring \<Rightarrow> jsstring option" where
  "encodeFrom [] = Some []"
| "encodeFrom (c # cs) =
     (if unescaped c then map_option ((#) c) (encodeFrom cs)
      else if is_trail c then None
      else if is_lead c then
        (case cs of
           [] \<Rightarrow> None
         | d # ds \<Rightarrow>
             if is_trail d
             then map_option
                    ((@) (escapeCodePoint
                            (0x10000 + (unat c - 0xD800) * 1024 + (unat d - 0xDC00))))
                    (encodeFrom ds)
             else None)
      else map_option ((@) (escapeCodePoint (unat c))) (encodeFrom cs))"

definition encodeURIComponent :: "jsstring \<Rightarrow> js_error + jsstring" where
  "encodeURIComponent s =
     (case encodeFrom s of
        None \<Rightarrow> Inl (URIError ''URI malformed'')
      | Some r \<Rightarrow> Inr r)"

section \<open>IdentifierResolver\<close>

subsection \<open>parseWikipediaUrl\<close>

record wikipediaInfo =
  language :: jsstring
  title :: jsstring

text \<open>
  \<open>/^https?:\/\/([a-z]+)\.wikipedia\.org\/wiki\/(.+)$/i\<close>. Without the flags \<open>s\<close> and
  \<open>m\<close> the dot matches no line terminator and \<open>$\<close> only the end of the input, so the
  second group is the whole rest, not empty and free of line terminators. A failed match
  is \<open>null\<close> (\<open>Inr None\<close>); the URIError of decodeURIComponent is not caught (\<open>Inl\<close>).
\<close>

definition parseWikipediaUrl :: "jsstring \<Rightarrow> js_error + wikipediaInfo option" where
  "parseWikipediaUrl wikipediaUrl =
     (case scheme wikipediaUrl of
        None \<Rightarrow> Inr None
      | Some r \<Rightarrow>
          if takeWhile is_letter r = [] then Inr None
          else (case literal ''.wikipedia.org/wiki/'' (dropWhile is_letter r) of
                  None \<Rightarrow> Inr None
                | Some t \<Rightarrow>
                    if t = [] then Inr None
                    else if list_ex is_line_terminator t then Inr None
                    else (case decodeURIComponent t of
                            Inl e \<Rightarrow> Inl e
                          | Inr d \<Rightarrow>
                              Inr (Some \<lparr>language = takeWhile is_letter r, title = d\<rparr>))))"

subsection \<open>The lookup service\<close>

text \<open>
  What the script reads of the answer of the Wikipedia API, after \<open>JSON.parse\<close>: the
  object \<open>data.query.pages\<close> as the list of its keys and values in the order of
  \<open>Object.keys\<close>, each page with its optional \<open>pageprops\<close> and their optional
  \<open>wikibase_item\<close>. \<open>NotJSON\<close> is a text that \<open>JSON.parse\<close> refuses, \<open>NoPages\<close> an
  answer without \<open>query.pages\<close>, where reading it throws a TypeError; both carry the
  message of the engine.
\<close>

datatype pageprops = PageProps (wikibase_item: "jsstring option")

datatype wikipage = WikiPage (pageprops: "pageprops option")

datatype body =
    NotJSON string
  | NoPages string
  | Pages "(jsstring \<times> wikipage) list"

text \<open>The callback of \<open>GM_xmlhttpRequest\<close> that fires.\<close>

datatype gm_outcome =
    OnLoad nat body
  | OnAbort
  | OnError
  | OnTimeout

type_synonym network = "jsstring \<Rightarrow> gm_outcome"

fun digits :: "nat \<Rightarrow> string" where
  "digits n =
     (if n < 10 then [char_of (48 + n)] else digits (n div 10) @ [char_of (48 + n mod 10)])"

declare digits.simps [simp del]

definition fetchURL :: "gm_outcome \<Rightarrow> js_error + nat \<times> body" where
  "fetchURL r =
     (case r of
        OnLoad status b \<Rightarrow>
          if 400 \<le> status then Inl (Error (''HTTP error! Status: '' @ digits status))
          else Inr (status, b)
      | OnAbort \<Rightarrow> Inl (Error ''The request was aborted.'')
      | OnError \<Rightarrow>
          Inl (Error ''There was an error with the request. See the console for more details.'')
      | OnTimeout \<Rightarrow> Inl (Error ''The request timed out.''))"

subsection \<open>Actions on the outside world\<close>

text \<open>
  Every function of the model returns, beside its result, the list of what it did to the
  outside, in order. \<open>FetchURL\<close> is a request made with \<open>fetchURL\<close>, straight through
  \<open>GM_xmlhttpRequest\<close>; \<open>CallAPI\<close> is a request handed to \<open>callAPI\<close>, the rate-limited
  \<open>fetch\<close>.
\<close>

datatype control =
    ConvertButton
  | EditItem
  | TypeInput
  | OptionItem jsstring
  | DoneButton
  | RemoveItem
  | SubmitButton

datatype field = UrlInput | SearchInput

datatype action =
    FetchURL jsstring
  | CallAPI jsstring
  | Click control
  | SetInput field jsstring
  | AddEditNote jsstring
  | CheckVotable
  | InsertButton
  | DisplayError string
  | ClearError
  | Delay nat

type_synonym 'a res = "(js_error + 'a) \<times> action list"

subsection \<open>getWikidataUrlFromWikipedia\<close>

text \<open>The body of the \<open>try\<close> block after the request has come back.\<close>

definition wikidataUrlOf :: "nat \<times> body \<Rightarrow> js_error + jsstring" where
  "wikidataUrlOf response =
     (case snd response of
        NotJSON m \<Rightarrow> Inl (SyntaxError m)
      | NoPages m \<Rightarrow> Inl (TypeError m)
      | Pages [] \<Rightarrow> Inl (TypeError ''Cannot read properties of undefined'')
      | Pages ((pageId, p) # _) \<Rightarrow>
          if pageId = js ''-1'' then Inl (Error ''Wikipedia page not found'')
          else (case pageprops p of
                  None \<Rightarrow> Inl (Error ''No Wikidata entity found for this Wikipedia article'')
                | Some pp \<Rightarrow>
                    (case wikibase_item pp of
                       None \<Rightarrow>
                         Inl (Error ''No Wikidata entity found for this Wikipedia article'')
                     | Some wikidataId \<Rightarrow>
                         if wikidataId = []
                         then Inl (Error ''No Wikidata entity found for this Wikipedia article'')
                         else Inr (js ''https://www.wikidata.org/wiki/'' @ wikidataId))))"

text \<open>The \<open>catch\<close> block: every error of the \<open>try\<close> block leaves as a new \<open>Error\<close>.\<close>

definition wrapLookupError :: "js_error \<Rightarrow> js_error" where
  "wrapLookupError e =
     Error (''Failed to get Wikidata ID: ''
            @ (if message e = [] then ''Unknown error'' else message e))"

definition apiUrlOf :: "jsstring \<Rightarrow> jsstring \<Rightarrow> jsstring" where
  "apiUrlOf lang encodedTitle =
     js ''https://'' @ lang
     @ js ''.wikipedia.org/w/api.php?action=query&prop=pageprops&titles='' @ encodedTitle
     @ js ''&format=json&origin=*''"

definition getWikidataUrlFromWikipedia :: "network \<Rightarrow> jsstring \<Rightarrow> jsstring res" where
  "getWikidataUrlFromWikipedia net wikipediaUrl =
     (case parseWikipediaUrl wikipediaUrl of
        Inl e \<Rightarrow> (Inl e, [])
      | Inr None \<Rightarrow> (Inl (Error ''Invalid Wikipedia URL format''), [])
      | Inr (Some wikipediaInfo) \<Rightarrow>
          (case encodeURIComponent (title wikipediaInfo) of
             Inl e \<Rightarrow> (Inl e, [])
           | Inr t \<Rightarrow>
               ((case fetchURL (net (apiUrlOf (language wikipediaInfo) t)) of
                   Inl e \<Rightarrow> Inl (wrapLookupError e)
                 | Inr response \<Rightarrow>
                     (case wikidataUrlOf response of
                        Inl e \<Rightarrow> Inl (wrapLookupError e)
                      | Inr url \<Rightarrow> Inr url)),
                [FetchURL (apiUrlOf (language wikipediaInfo) t)])))"

text \<open>How many requests a run handed to the rate-limited channel, and how many it made at all.\<close>

fun is_CallAPI :: "action \<Rightarrow> bool" where
  "is_CallAPI (CallAPI u) = True"
| "is_CallAPI _ = False"

fun is_FetchURL :: "action \<Rightarrow> bool" where
  "is_FetchURL (FetchURL u) = True"
| "is_FetchURL _ = False"


definition networkCalls :: "action list \<Rightarrow> nat" where
  "networkCalls tr = length (filter (\<lambda>a. is_CallAPI a \<or> is_FetchURL a) tr)"

text \<open>The actions that change the surface: controls invoked and values written.\<close>

fun is_mutation :: "action \<Rightarrow> bool" where
  "is_mutation (Click c) = True"
| "is_mutation (SetInput f v) = True"
| "is_mutation (AddEditNote m) = True"
| "is_mutation CheckVotable = True"
| "is_mutation InsertButton = True"
| "is_mutation _ = False"

definition mutationCalls :: "action list \<Rightarrow> nat" where
  "mutationCalls tr = length (filter is_mutation tr)"

section \<open>RateLimitedDispatcher\<close>

text \<open>
  Time is counted in milliseconds. Of a promise the model keeps when it settles and with
  what. A handler given to \<open>then\<close> at the time \<open>now\<close> runs once the promise is settled,
  and not before it was given; the promise that \<open>then\<close> returns follows the promise that
  the handler returns.
\<close>

record 'a promise =
  settledAt :: nat
  result :: "js_error + 'a"

definition handlerTime :: "'a promise \<Rightarrow> nat \<Rightarrow> nat" where
  "handlerTime p now = max now (settledAt p)"

definition then2 ::
  "'a promise \<Rightarrow> nat \<Rightarrow> (nat \<Rightarrow> 'a \<Rightarrow> 'b promise) \<Rightarrow> (nat \<Rightarrow> js_error \<Rightarrow> 'b promise)
     \<Rightarrow> 'b promise" where
  "then2 p now onFulfilled onRejected =
     (case result p of
        Inr v \<Rightarrow> onFulfilled (handlerTime p now) v
      | Inl e \<Rightarrow> onRejected (handlerTime p now) e)"

text \<open>\<open>then\<close> with one handler: a rejection goes through.\<close>

definition then1 :: "'a promise \<Rightarrow> nat \<Rightarrow> (nat \<Rightarrow> 'a \<Rightarrow> 'b promise) \<Rightarrow> 'b promise" where
  "then1 p now onFulfilled =
     then2 p now onFulfilled (\<lambda>t e. \<lparr>settledAt = t, result = Inl e\<rparr>)"

text \<open>
  \<open>delay(ms)\<close> called at \<open>now\<close>: a timer never fires early; \<open>late\<close> is by how much it
  fires late.
\<close>

definition delay :: "nat \<Rightarrow> nat \<Rightarrow> nat \<Rightarrow> unit promise" where
  "delay now ms late = \<lparr>settledAt = now + ms + late, result = Inr ()\<rparr>"

definition promiseResolve :: "nat \<Rightarrow> unit promise" where
  "promiseResolve now = \<lparr>settledAt = now, result = Inr ()\<rparr>"

text \<open>
  One call of the rate-limited function: when it is made, what the operation does with its
  arguments (how long it takes and how it ends; an operation that throws at once takes no
  time), and the lateness of the timer of the delay that the call appends to the queue.
\<close>

record 'a call =
  at :: nat
  duration :: nat
  outcome :: "js_error + 'a"
  late :: nat

definition operation :: "'a call \<Rightarrow> nat \<Rightarrow> 'a promise" where
  "operation c t = \<lparr>settledAt = t + duration c, result = outcome c\<rparr>"

text \<open>
  What a call gives: when the operation was started, if the queue ever lets it, and the
  promise returned to the caller.
\<close>

record 'a dispatch =
  started :: "nat option"
  returned :: "'a promise"

subsection \<open>rateLimitedQueue\<close>

text \<open>The closure returned by \<open>rateLimitedQueue\<close>, on the value of its variable \<open>queue\<close>.\<close>

definition rateLimitedQueue :: "nat \<Rightarrow> unit promise \<Rightarrow> 'a call \<Rightarrow> 'a dispatch \<times> unit promise" where
  "rateLimitedQueue interval queue c =
     (\<lparr>started = (case result queue of
                    Inr v \<Rightarrow> Some (handlerTime queue (at c))
                  | Inl e \<Rightarrow> None),
       returned = then1 queue (at c) (\<lambda>t v. operation c t)\<rparr>,
      then2 queue (at c) (\<lambda>t v. delay t interval (late c)) (\<lambda>t e. delay t interval (late c)))"

subsection \<open>rateLimit\<close>

text \<open>
  The state of the function that \<open>rateLimit\<close> returns: the one queue when
  \<open>requestsPerInterval\<close> is 1; else \<open>requestsPerInterval\<close>, the queues and \<open>queueIndex\<close>.
\<close>

datatype limiter =
    Single "unit promise"
  | Lanes nat "unit promise list" nat

definition rateLimit :: "nat \<Rightarrow> nat \<Rightarrow> limiter" where
  "rateLimit now requestsPerInterval =
     (if requestsPerInterval = 1 then Single (promiseResolve now)
      else Lanes requestsPerInterval (replicate requestsPerInterval (promiseResolve now)) 0)"

text \<open>
  A call gives the lane it went to and its dispatch. With no queue at all the remainder is
  \<open>NaN\<close>, no queue is found under it, and the call of \<open>undefined\<close> is a TypeError.
\<close>

definition limitedCall ::
  "nat \<Rightarrow> limiter \<Rightarrow> 'a call \<Rightarrow> (js_error + nat \<times> 'a dispatch) \<times> limiter" where
  "limitedCall interval L c =
     (case L of
        Single queue \<Rightarrow>
          (Inr (0, fst (rateLimitedQueue interval queue c)),
           Single (snd (rateLimitedQueue interval queue c)))
      | Lanes requestsPerInterval queues queueIndex \<Rightarrow>
          if requestsPerInterval = 0
          then (Inl (TypeError ''queues[queueIndex] is not a function''), L)
          else
            (Inr ((queueIndex + 1) mod requestsPerInterval,
                  fst (rateLimitedQueue interval
                         (queues ! ((queueIndex + 1) mod requestsPerInterval)) c)),
             Lanes requestsPerInterval
               (queues[(queueIndex + 1) mod requestsPerInterval :=
                  snd (rateLimitedQueue interval
                         (queues ! ((queueIndex + 1) mod requestsPerInterval)) c)])
               ((queueIndex + 1) mod requestsPerInterval)))"

text \<open>The calls of one rate-limited function, in the order in which they are made.\<close>

fun limitedCalls ::
  "nat \<Rightarrow> limiter \<Rightarrow> 'a call list \<Rightarrow> (js_error + nat \<times> 'a dispatch) list" where
  "limitedCalls interval L [] = []"
| "limitedCalls interval L (c # cs) =
     fst (limitedCall interval L c) # limitedCalls interval (snd (limitedCall interval L c)) cs"

text \<open>\<open>callAPI\<close>, made when the script is loaded: \<open>rateLimit(fetch, 1000)\<close>.\<close>

definition callAPI :: "nat \<Rightarrow> limiter" where
  "callAPI loaded = rateLimit loaded 1"





fun laneCount :: "limiter \<Rightarrow> nat" where
  "laneCount (Single queue) = 1"
| "laneCount (Lanes requestsPerInterval queues queueIndex) = requestsPerInterval"



section \<open>StateWaiter\<close>

text \<open>
  A wait is a promise with a \<open>MutationObserver\<close> and a timer behind it. The outside acts on
  it through two kinds of events: the observed subtree changed (\<open>Mutation found\<close>, with what
  \<open>qs(selector, parent)\<close> finds right after the change), and the time of the timer has come
  (\<open>TimerDue\<close>). An observer that was disconnected gets no callback, a timer that was
  cleared or has fired does not fire; the first call of \<open>resolve\<close> or \<open>reject\<close> settles
  the promise and a later one changes nothing. The counters are there to state what ran.
\<close>

type_synonym elem = nat

datatype 'e event = Mutation "'e option" | TimerDue

record 'r waiter =
  observing :: bool
  timerArmed :: bool
  settled :: "(js_error + 'r) option"
  callbackRuns :: nat
  resolveCalls :: nat
  rejectCalls :: nat

definition resolve :: "'r \<Rightarrow> 'r waiter \<Rightarrow> 'r waiter" where
  "resolve x w =
     w\<lparr>settled := (case settled w of None \<Rightarrow> Some (Inr x) | Some r \<Rightarrow> Some r),
       resolveCalls := Suc (resolveCalls w)\<rparr>"

definition reject :: "js_error \<Rightarrow> 'r waiter \<Rightarrow> 'r waiter" where
  "reject e w =
     w\<lparr>settled := (case settled w of None \<Rightarrow> Some (Inl e) | Some r \<Rightarrow> Some r),
       rejectCalls := Suc (rejectCalls w)\<rparr>"

definition disconnect :: "'r waiter \<Rightarrow> 'r waiter" where
  "disconnect w = w\<lparr>observing := False\<rparr>"

definition clearTimeout :: "'r waiter \<Rightarrow> 'r waiter" where
  "clearTimeout w = w\<lparr>timerArmed := False\<rparr>"

definition unsettled :: "'r waiter" where
  "unsettled =
     \<lparr>observing = False, timerArmed = False, settled = None,
      callbackRuns = 0, resolveCalls = 0, rejectCalls = 0\<rparr>"

subsection \<open>waitForElement\<close>

text \<open>
  The executor: the observer is made, the timer set, the observer connected, and then the
  selector is tried at once. \<open>found\<close> is what that first \<open>qs\<close> gives.
\<close>

definition waitForElement_start :: "'e option \<Rightarrow> 'e waiter" where
  "waitForElement_start found =
     (let w = unsettled\<lparr>timerArmed := True, observing := True\<rparr>
      in case found of
           Some element \<Rightarrow> resolve element (clearTimeout (disconnect w))
         | None \<Rightarrow> w)"

fun waitForElement_step :: "string \<Rightarrow> 'e waiter \<Rightarrow> 'e event \<Rightarrow> 'e waiter" where
  "waitForElement_step selector w (Mutation found) =
     (if observing w then
        (case found of
           Some element \<Rightarrow>
             resolve element
               (clearTimeout (disconnect (w\<lparr>callbackRuns := Suc (callbackRuns w)\<rparr>)))
         | None \<Rightarrow> w\<lparr>callbackRuns := Suc (callbackRuns w)\<rparr>)
      else w)"
| "waitForElement_step selector w TimerDue =
     (if timerArmed w then
        reject (Error (''Timed out waiting for element: '' @ selector))
          (disconnect (w\<lparr>timerArmed := False\<rparr>))
      else w)"

subsection \<open>waitForElementRemoval\<close>

text \<open>Here the selector is tried first; observer and timer exist only if it still matches.\<close>

definition waitForElementRemoval_start :: "'e option \<Rightarrow> unit waiter" where
  "waitForElementRemoval_start found =
     (case found of
        None \<Rightarrow> resolve () unsettled
      | Some element \<Rightarrow> unsettled\<lparr>timerArmed := True, observing := True\<rparr>)"

fun waitForElementRemoval_step :: "string \<Rightarrow> unit waiter \<Rightarrow> 'e event \<Rightarrow> unit waiter" where
  "waitForElementRemoval_step selector w (Mutation found) =
     (if observing w then
        (case found of
           None \<Rightarrow>
             resolve () (clearTimeout (disconnect (w\<lparr>callbackRuns := Suc (callbackRuns w)\<rparr>)))
         | Some element \<Rightarrow> w\<lparr>callbackRuns := Suc (callbackRuns w)\<rparr>)
      else w)"
| "waitForElementRemoval_step selector w TimerDue =
     (if timerArmed w then
        reject (Error (''Timed out waiting for element removal: '' @ selector))
          (disconnect (w\<lparr>timerArmed := False\<rparr>))
      else w)"

text \<open>A wait from its call on, through the events that the outside sends it.\<close>

definition waitForElement_run :: "string \<Rightarrow> 'e option \<Rightarrow> 'e event list \<Rightarrow> 'e waiter" where
  "waitForElement_run selector found evs =
     foldl (waitForElement_step selector) (waitForElement_start found) evs"

definition waitForElementRemoval_run ::
  "string \<Rightarrow> 'e option \<Rightarrow> 'e event list \<Rightarrow> unit waiter" where
  "waitForElementRemoval_run selector found evs =
     foldl (waitForElementRemoval_step selector) (waitForElementRemoval_start found) evs"

subsection \<open>A wait as the caller sees it\<close>

text \<open>
  What the surface shows to one wait: what the selector finds at the call, and then, in
  order, each change of the observed subtree with the milliseconds since the call and what
  the selector finds after it. The changes before the deadline reach the observer, then
  the timer is due.
\<close>

record 'e probe =
  atCall :: "'e option"
  changes :: "(nat \<times> 'e option) list"

definition timeline :: "nat \<Rightarrow> 'e probe \<Rightarrow> 'e event list" where
  "timeline timeout p =
     map (\<lambda>c. Mutation (snd c)) (filter (\<lambda>c. fst c < timeout) (changes p)) @ [TimerDue]"

text \<open>
  \<open>await\<close>: the value or the error of the settled promise. A wait is settled once its timer
  was due (lemmas \<open>waitForElement_settles\<close> and \<open>waitForElementRemoval_settles\<close>), so the
  last case is never met by the two functions below.
\<close>

definition await :: "'r waiter \<Rightarrow> js_error + 'r" where
  "await w = (case settled w of Some r \<Rightarrow> r | None \<Rightarrow> Inl (Error ''promise never settled''))"

definition waitForElement :: "string \<Rightarrow> nat \<Rightarrow> 'e probe \<Rightarrow> js_error + 'e" where
  "waitForElement selector timeout p =
     await (waitForElement_run selector (atCall p) (timeline timeout p))"

definition waitForElementRemoval :: "string \<Rightarrow> nat \<Rightarrow> 'e probe \<Rightarrow> js_error + unit" where
  "waitForElementRemoval selector timeout p =
     await (waitForElementRemoval_run selector (atCall p) (timeline timeout p))"

section \<open>Sequencing, exceptions and the trace\<close>

definition ret :: "'a \<Rightarrow> 'a res" where
  "ret x = (Inr x, [])"

definition act :: "action \<Rightarrow> unit res" where
  "act a = (Inr (), [a])"

definition lift :: "js_error + 'a \<Rightarrow> 'a res" where
  "lift r = (r, [])"

text \<open>\<open>bind m f\<close>: \<open>m\<close>, then \<open>f\<close> on its value; an exception of \<open>m\<close> skips \<open>f\<close>.\<close>

definition bind :: "'a res \<Rightarrow> ('a \<Rightarrow> 'b res) \<Rightarrow> 'b res" where
  "bind m f =
     (case fst m of
        Inl e \<Rightarrow> (Inl e, snd m)
      | Inr x \<Rightarrow> (fst (f x), snd m @ snd (f x)))"

text \<open>\<open>catch m h\<close>: \<open>try { m } catch (e) { h e }\<close>.\<close>

definition catch :: "'a res \<Rightarrow> (js_error \<Rightarrow> 'a res) \<Rightarrow> 'a res" where
  "catch m h =
     (case fst m of
        Inl e \<Rightarrow> (fst (h e), snd m @ snd (h e))
      | Inr x \<Rightarrow> m)"

section \<open>RelationshipConverter\<close>

subsection \<open>handleRelationshipDialog\<close>

definition is_space :: "16 word \<Rightarrow> bool" where
  "is_space c =
     (c \<in> set [0x09, 0x0A, 0x0B, 0x0C, 0x0D, 0x20, 0xA0, 0x1680, 0x2028, 0x2029, 0x202F,
               0x205F, 0x3000, 0xFEFF]
      \<or> (0x2000 \<le> c \<and> c \<le> 0x200A))"

definition trim :: "jsstring \<Rightarrow> jsstring" where
  "trim s = rev (dropWhile is_space (rev (dropWhile is_space s)))"

definition wikidataOptionTexts :: "jsstring list" where
  "wikidataOptionTexts = [js ''Wikidata / Wikidata page for'', js ''Wikidata page for / Wikidata'']"

text \<open>The loop over the options: the first whose trimmed text is one of the two.\<close>

definition findWikidataOption :: "jsstring list \<Rightarrow> jsstring option" where
  "findWikidataOption allOptions = find (\<lambda>t. trim t \<in> set wikidataOptionTexts) allOptions"

text \<open>
  What an open relationship dialog shows while the script works on it: the wait for the
  type input, the texts of the options listed after the click on it, the wait for the
  search input, the texts of the options listed after typing, and whether the dialog has a
  Done button.
\<close>

record dialog =
  typeInput :: "elem probe"
  options :: "jsstring list"
  searchInput :: "elem probe"
  optionsAfterTyping :: "jsstring list"
  doneButton :: bool

definition selectByTyping :: "dialog \<Rightarrow> unit res" where
  "selectByTyping d =
     bind (lift (waitForElement ''.ui-autocomplete-input'' 2000 (searchInput d))) (\<lambda>searchInput.
     bind (act (SetInput SearchInput (js ''Wikidata / Wikidata page for''))) (\<lambda>_.
     bind (act (Delay 300)) (\<lambda>_.
       (case findWikidataOption (optionsAfterTyping d) of
          Some wikidataOption \<Rightarrow>
            bind (act (Click (OptionItem wikidataOption))) (\<lambda>_. act (Delay 50))
        | None \<Rightarrow> ret ()))))"

definition typeInputSelector :: string where
  "typeInputSelector = ''input[id^='' @ [CHR 0x27] @ ''relationship-type-'' @ [CHR 0x27] @ '']''"

definition handleRelationshipDialog :: "dialog \<Rightarrow> unit res" where
  "handleRelationshipDialog d =
     bind (act (Delay 100)) (\<lambda>_.
     bind (lift (waitForElement typeInputSelector 2000 (typeInput d))) (\<lambda>typeInput.
     bind (act (Click TypeInput)) (\<lambda>_.
     bind (act (Delay 50)) (\<lambda>_.
     bind (case findWikidataOption (options d) of
             Some wikidataOption \<Rightarrow>
               bind (act (Click (OptionItem wikidataOption))) (\<lambda>_. act (Delay 50))
           | None \<Rightarrow> selectByTyping d) (\<lambda>_.
       (if doneButton d
        then bind (act (Click DoneButton)) (\<lambda>_. act (Delay 100))
        else ret ()))))))"

subsection \<open>One relationship item\<close>

text \<open>
  A relationship item of the editor: whether it has an edit and a remove button, and how
  the surface behaves once its edit button was clicked: the wait for the dialog, the
  dialog, the wait for its removal; and, for the \<open>catch\<close> block, whether a dialog is still
  there, whether that one has a Done button, and the wait for its removal after the click.
\<close>

record rel_item =
  editButton :: bool
  removeButton :: bool
  dialogAppears :: "elem probe"
  dialogShown :: dialog
  dialogCloses :: "elem probe"
  dialogLeft :: bool
  doneButtonLeft :: bool
  forcedClose :: "elem probe"

text \<open>
  The script keeps no outcome per item, it only counts. The model names the branch that
  counted the item: the end of the \<open>try\<close> block (\<open>Converted\<close>), the end of the \<open>catch\<close>
  block (\<open>Failed\<close>), the branch without an edit button (\<open>Unactionable\<close>); in the removal
  loop, the click on the remove button (\<open>Removed\<close>) or its absence (\<open>Failed\<close>).
\<close>

datatype outcome = Converted | Removed | Failed | Unactionable

text \<open>The \<open>try\<close> block of an item, lines 596 to 599.\<close>

definition convertInDialog :: "rel_item \<Rightarrow> unit res" where
  "convertInDialog item =
     bind (lift (waitForElement ''#edit-relationship-dialog'' 5000 (dialogAppears item))) (\<lambda>dialog.
     bind (handleRelationshipDialog (dialogShown item)) (\<lambda>_.
     bind (lift (waitForElementRemoval ''#edit-relationship-dialog'' 5000 (dialogCloses item))) (\<lambda>_.
       act (Delay 300))))"

text \<open>The \<open>catch\<close> block of an item, lines 602 to 622.\<close>

definition recoverDialog :: "rel_item \<Rightarrow> unit res" where
  "recoverDialog item =
     bind (if dialogLeft item then
             (if doneButtonLeft item then
                bind (act (Click DoneButton)) (\<lambda>_.
                bind (act (Delay 200)) (\<lambda>_.
                  catch (lift (waitForElementRemoval ''#edit-relationship-dialog'' 2000
                                 (forcedClose item)))
                    (\<lambda>forceCloseError. ret ())))
              else ret ())
           else ret ()) (\<lambda>_.
       act (Delay 1000))"

text \<open>The body of the inner loop: the new value of \<open>relationshipsProcessedCount\<close>.\<close>

definition convertItem :: "rel_item \<Rightarrow> nat \<Rightarrow> (nat \<times> outcome) res" where
  "convertItem item relationshipsProcessedCount =
     (if editButton item then
        bind (act (Click EditItem)) (\<lambda>_.
          catch (bind (convertInDialog item) (\<lambda>_.
                   ret (Suc relationshipsProcessedCount, Converted)))
            (\<lambda>dialogError.
               bind (recoverDialog item) (\<lambda>_.
                 ret (Suc relationshipsProcessedCount, Failed))))
      else ret (Suc relationshipsProcessedCount, Unactionable))"

fun convertItems :: "rel_item list \<Rightarrow> nat \<times> outcome list \<Rightarrow> (nat \<times> outcome list) res" where
  "convertItems [] st = ret st"
| "convertItems (item # items) st =
     bind (convertItem item (fst st)) (\<lambda>r.
       convertItems items (fst r, snd st @ [snd r]))"

text \<open>
  The outer loop over the rows \<open>tr.wikipedia-page-for\<close>; the state is
  \<open>relationshipsProcessedCount\<close>, \<open>totalRelationshipsToProcess\<close> and the outcomes so far.
\<close>

fun convertRows ::
  "rel_item list list \<Rightarrow> nat \<times> nat \<times> outcome list \<Rightarrow> (nat \<times> nat \<times> outcome list) res" where
  "convertRows [] st = ret st"
| "convertRows (tr # trs) st =
     bind (convertItems tr (fst st, snd (snd st))) (\<lambda>r.
       convertRows trs (fst r, fst (snd st) + length tr, snd r))"

text \<open>The removal loop of the \<open>finally\<close> block; the flag is \<open>relationshipsSuccessfullyRemoved\<close>.\<close>

definition removeItem :: "rel_item \<Rightarrow> bool \<Rightarrow> (bool \<times> outcome) res" where
  "removeItem item relationshipsSuccessfullyRemoved =
     (if removeButton item then
        catch (bind (act (Click RemoveItem)) (\<lambda>_.
               bind (act (Delay 300)) (\<lambda>_.
                 ret (relationshipsSuccessfullyRemoved, Removed))))
          (\<lambda>removeError. ret (False, Failed))
      else ret (False, Failed))"

fun removeItems :: "rel_item list \<Rightarrow> bool \<times> outcome list \<Rightarrow> (bool \<times> outcome list) res" where
  "removeItems [] st = ret st"
| "removeItems (item # items) st =
     bind (removeItem item (fst st)) (\<lambda>r.
       removeItems items (fst r, snd st @ [snd r]))"

fun removeRows ::
  "rel_item list list \<Rightarrow> bool \<times> outcome list \<Rightarrow> (bool \<times> outcome list) res" where
  "removeRows [] st = ret st"
| "removeRows (tr # trs) st = bind (removeItems tr st) (\<lambda>r. removeRows trs r)"

section \<open>ConversionOrchestrator\<close>

text \<open>
  The edit page of a URL as the script meets it: the value of the URL input if there is
  one, the wait for the marker of pending edits in the header, whether the edit note
  exists, the rows of Wikipedia relationships with their items if there is a relationship
  editor, whether the votable checkbox and the submit button exist, and the network.
\<close>

record page =
  urlInput :: "jsstring option"
  pendingMarker :: "elem probe"
  editNote :: bool
  relationshipEditor :: "rel_item list list option"
  makeVotableCheckbox :: bool
  submitButton :: bool
  net :: network

text \<open>
  What a run of \<open>fixLinkURLEdit\<close> ends with: \<open>conversionSuccessful\<close>; the flag that decides
  the submission, which is \<open>allRelationshipsHandled\<close> after a conversion and
  \<open>relationshipsSuccessfullyRemoved\<close> otherwise; and the outcomes of the items.
\<close>

record verdict =
  conversionSuccessful :: bool
  allHandled :: bool
  outcomes :: "outcome list"

text \<open>
  \<open>addMessageToEditNote\<close>: without the edit note, reading its value is a TypeError. The
  text of the note is kept as the message added; how \<open>buildEditNote\<close> merges it with the
  sections already there is left out, as is the disabling of the convert button while
  \<open>fixLinkURLEdit\<close> runs.
\<close>

definition addMessageToEditNote :: "page \<Rightarrow> jsstring \<Rightarrow> unit res" where
  "addMessageToEditNote pg msg =
     (if editNote pg then act (AddEditNote msg)
      else lift (Inl (TypeError ''Cannot read properties of null'')))"

text \<open>The \<open>try\<close> block of \<open>fixLinkURLEdit\<close>; its value is \<open>allRelationshipsHandled\<close>.\<close>

definition convertAll :: "page \<Rightarrow> jsstring \<Rightarrow> (bool \<times> outcome list) res" where
  "convertAll pg oldLink =
     bind (getWikidataUrlFromWikipedia (net pg) oldLink) (\<lambda>wikidataURL.
     bind (act (SetInput UrlInput wikidataURL)) (\<lambda>_.
     bind (addMessageToEditNote pg (oldLink @ [0x20, 0x2192, 0x20] @ wikidataURL)) (\<lambda>_.
       (case relationshipEditor pg of
          Some wikipediaRelationshipRows \<Rightarrow>
            bind (convertRows wikipediaRelationshipRows (0, 0, [])) (\<lambda>r.
              ret (fst r = fst (snd r), snd (snd r)))
        | None \<Rightarrow> ret (True, [])))))"

text \<open>Both submitting branches of the \<open>finally\<close> block do the same.\<close>

definition submitEdit :: "page \<Rightarrow> unit res" where
  "submitEdit pg =
     bind (if makeVotableCheckbox pg then act CheckVotable else ret ()) (\<lambda>_.
       (if submitButton pg
        then bind (act (Delay 500)) (\<lambda>_. act (Click SubmitButton))
        else ret ()))"

definition removeAll :: "page \<Rightarrow> (bool \<times> outcome list) res" where
  "removeAll pg =
     (case relationshipEditor pg of
        Some wikipediaRelationshipRows \<Rightarrow> removeRows wikipediaRelationshipRows (True, [])
      | None \<Rightarrow> ret (True, []))"

definition fixLinkURLEdit :: "page \<Rightarrow> jsstring \<Rightarrow> verdict res" where
  "fixLinkURLEdit pg oldLink =
     bind (act ClearError) (\<lambda>_.
     bind (catch
             (bind (convertAll pg oldLink) (\<lambda>r. ret (True, r)))
             (\<lambda>error.
                bind (act (DisplayError (message error))) (\<lambda>_. ret (False, False, [])))) (\<lambda>t.
       (if fst t then
          (if fst (snd t) then
             bind (submitEdit pg) (\<lambda>_.
               ret \<lparr>conversionSuccessful = True, allHandled = True, outcomes = snd (snd t)\<rparr>)
           else
             ret \<lparr>conversionSuccessful = True, allHandled = False, outcomes = snd (snd t)\<rparr>)
        else
          bind (removeAll pg) (\<lambda>r.
            (if fst r then
               bind (submitEdit pg) (\<lambda>_.
                 ret \<lparr>conversionSuccessful = False, allHandled = True, outcomes = snd r\<rparr>)
             else
               ret \<lparr>conversionSuccessful = False, allHandled = False, outcomes = snd r\<rparr>)))))"

subsection \<open>runOnURLEditPage\<close>

definition pendingMessage :: string where
  "pendingMessage =
     ''Pending edits detected for this URL. Automatic conversion/removal aborted. ''
     @ ''Please resolve pending edits manually.''"

text \<open>
  \<open>None\<close> is a return before the conversion was started. The click on the new button runs
  \<open>fixLinkURLEdit\<close>.
\<close>

definition runOnURLEditPage :: "page \<Rightarrow> verdict option res" where
  "runOnURLEditPage pg =
     (case urlInput pg of
        None \<Rightarrow> ret None
      | Some v \<Rightarrow>
          if isWikipediaLink v then
            (if isWikidataLink v then ret None
             else
               bind (catch
                       (bind (lift (waitForElement ''div.urlheader h1 span.mp'' 1000
                                      (pendingMarker pg))) (\<lambda>urlHeaderSpanMp. ret True))
                       (\<lambda>e. ret False)) (\<lambda>hasPendingEdits.
                 (if hasPendingEdits then
                    bind (act (DisplayError pendingMessage)) (\<lambda>_. ret None)
                  else
                    bind (act InsertButton) (\<lambda>_.
                    bind (act (Click ConvertButton)) (\<lambda>_.
                    bind (fixLinkURLEdit pg v) (\<lambda>r. ret (Some r)))))))
          else ret None)"

section \<open>Example inputs\<close>

text \<open>
  A network that answers every request with the page 123 and its Wikidata item Q42; a
  dialog that offers the Wikidata type at once; an item whose dialog opens after 20 ms
  and closes 30 ms after Done; an item whose dialog never opens; and an edit page for
  \<open>https://en.wikipedia.org/wiki/Foo\<close> with three items, the second of which is stuck.
\<close>

definition exampleNet :: network where
  "exampleNet u = OnLoad 200 (Pages [(js ''123'', WikiPage (Some (PageProps (Some (js ''Q42'')))))])"

definition exampleUrl :: jsstring where
  "exampleUrl = js ''https://en.wikipedia.org/wiki/Foo''"

definition exampleDialog :: dialog where
  "exampleDialog =
     \<lparr>typeInput = \<lparr>atCall = Some 1, changes = []\<rparr>,
      options = [js '' Wikidata / Wikidata page for ''],
      searchInput = \<lparr>atCall = None, changes = []\<rparr>,
      optionsAfterTyping = [],
      doneButton = True\<rparr>"

definition goodItem :: rel_item where
  "goodItem =
     \<lparr>editButton = True, removeButton = True,
      dialogAppears = \<lparr>atCall = None, changes = [(20, Some 7)]\<rparr>,
      dialogShown = exampleDialog,
      dialogCloses = \<lparr>atCall = Some 7, changes = [(30, None)]\<rparr>,
      dialogLeft = False, doneButtonLeft = False,
      forcedClose = \<lparr>atCall = None, changes = []\<rparr>\<rparr>"

definition stuckItem :: rel_item where
  "stuckItem = goodItem\<lparr>dialogAppears := \<lparr>atCall = None, changes = []\<rparr>\<rparr>"

definition examplePage :: page where
  "examplePage =
     \<lparr>urlInput = Some exampleUrl,
      pendingMarker = \<lparr>atCall = None, changes = []\<rparr>,
      editNote = True,
      relationshipEditor = Some [[goodItem, stuckItem, goodItem]],
      makeVotableCheckbox = True,
      submitButton = True,
      net = exampleNet\<rparr>"



section \<open>Properties\<close>

subsection \<open>Sequencing\<close>

lemma fst_bind:
  "fst (bind m f) = (case fst m of Inl e \<Rightarrow> Inl e | Inr x \<Rightarrow> fst (f x))"
  by (simp add: bind_def split: sum.splits)

lemma snd_bind:
  "snd (bind m f) = (case fst m of Inl e \<Rightarrow> snd m | Inr x \<Rightarrow> snd m @ snd (f x))"
  by (simp add: bind_def split: sum.splits)

lemma fst_catch:
  "fst (catch m h) = (case fst m of Inl e \<Rightarrow> fst (h e) | Inr x \<Rightarrow> Inr x)"
  by (simp add: catch_def split: sum.splits)

lemma snd_catch:
  "snd (catch m h) = (case fst m of Inl e \<Rightarrow> snd m @ snd (h e) | Inr x \<Rightarrow> snd m)"
  by (simp add: catch_def split: sum.splits)

lemma fst_ret [simp]: "fst (ret x) = Inr x"
  by (simp add: ret_def)

lemma snd_ret [simp]: "snd (ret x) = []"
  by (simp add: ret_def)

lemma fst_act [simp]: "fst (act a) = Inr ()"
  by (simp add: act_def)

lemma snd_act [simp]: "snd (act a) = [a]"
  by (simp add: act_def)

lemma fst_lift [simp]: "fst (lift r) = r"
  by (simp add: lift_def)

lemma snd_lift [simp]: "snd (lift r) = []"
  by (simp add: lift_def)

subsection \<open>StateWaiter\<close>

lemmas waiter_defs =
  resolve_def reject_def disconnect_def clearTimeout_def unsettled_def Let_def

lemma waitForElement_idle:
  "\<not> observing w \<Longrightarrow> \<not> timerArmed w \<Longrightarrow> foldl (waitForElement_step sel) w evs = w"
proof (induction evs)
  case Nil
  then show ?case by simp
next
  case (Cons ev evs)
  then show ?case by (cases ev) simp_all
qed

lemma waitForElement_waiting:
  "observing w \<Longrightarrow>
     foldl (waitForElement_step sel) w (replicate k (Mutation None))
       = w\<lparr>callbackRuns := callbackRuns w + k\<rparr>"
  by (induction k arbitrary: w) simp_all

lemma waitForElement_found:
  assumes "observing w"
  shows "foldl (waitForElement_step sel) w (Mutation (Some e) # evs)
           = resolve e (clearTimeout (disconnect (w\<lparr>callbackRuns := Suc (callbackRuns w)\<rparr>)))"
  using assms by (simp add: waitForElement_idle waiter_defs)

lemma waitForElement_due:
  assumes "timerArmed w"
  shows "foldl (waitForElement_step sel) w (TimerDue # evs)
           = reject (Error (''Timed out waiting for element: '' @ sel))
               (disconnect (w\<lparr>timerArmed := False\<rparr>))"
  using assms by (simp add: waitForElement_idle waiter_defs)

lemma waitForElement_step_inv:
  assumes "observing w = (settled w = None)" "timerArmed w = (settled w = None)"
    "resolveCalls w + rejectCalls w = (if settled w = None then 0 else 1)"
  shows "observing (waitForElement_step sel w ev) = (settled (waitForElement_step sel w ev) = None)
       \<and> timerArmed (waitForElement_step sel w ev) = (settled (waitForElement_step sel w ev) = None)
       \<and> resolveCalls (waitForElement_step sel w ev) + rejectCalls (waitForElement_step sel w ev)
           = (if settled (waitForElement_step sel w ev) = None then 0 else 1)"
proof (cases ev)
  case (Mutation found)
  with assms show ?thesis by (cases found) (auto simp add: waiter_defs)
next
  case TimerDue
  with assms show ?thesis by (auto simp add: waiter_defs)
qed

lemma waitForElement_foldl_inv:
  assumes "observing w = (settled w = None)" "timerArmed w = (settled w = None)"
    "resolveCalls w + rejectCalls w = (if settled w = None then 0 else 1)"
  shows "observing (foldl (waitForElement_step sel) w evs)
           = (settled (foldl (waitForElement_step sel) w evs) = None)
       \<and> timerArmed (foldl (waitForElement_step sel) w evs)
           = (settled (foldl (waitForElement_step sel) w evs) = None)
       \<and> resolveCalls (foldl (waitForElement_step sel) w evs)
           + rejectCalls (foldl (waitForElement_step sel) w evs)
           = (if settled (foldl (waitForElement_step sel) w evs) = None then 0 else 1)"
  using assms
proof (induction evs arbitrary: w)
  case Nil
  then show ?case by simp
next
  case (Cons ev evs)
  from waitForElement_step_inv [OF Cons.prems, of sel ev]
  show ?case by (simp add: Cons.IH)
qed

lemma waitForElement_run_inv:
  "observing (waitForElement_run sel found evs) = (settled (waitForElement_run sel found evs) = None)
   \<and> timerArmed (waitForElement_run sel found evs) = (settled (waitForElement_run sel found evs) = None)
   \<and> resolveCalls (waitForElement_run sel found evs) + rejectCalls (waitForElement_run sel found evs)
       = (if settled (waitForElement_run sel found evs) = None then 0 else 1)"
  unfolding waitForElement_run_def
  by (rule waitForElement_foldl_inv; cases found)
     (simp_all add: waitForElement_start_def waiter_defs)

lemma waitForElement_run_Some:
  "waitForElement_run sel (Some e) evs
     = \<lparr>observing = False, timerArmed = False, settled = Some (Inr e),
        callbackRuns = 0, resolveCalls = 1, rejectCalls = 0\<rparr>"
  by (simp add: waitForElement_run_def waitForElement_start_def waitForElement_idle waiter_defs)

lemma waitForElement_run_found:
  "waitForElement_run sel None (replicate k (Mutation None) @ Mutation (Some e) # evs)
     = \<lparr>observing = False, timerArmed = False, settled = Some (Inr e),
        callbackRuns = Suc k, resolveCalls = 1, rejectCalls = 0\<rparr>"
  by (simp add: waitForElement_run_def waitForElement_start_def waitForElement_waiting
        waitForElement_idle waiter_defs)

lemma waitForElement_run_due:
  "waitForElement_run sel None (replicate k (Mutation None) @ TimerDue # evs)
     = \<lparr>observing = False, timerArmed = False,
        settled = Some (Inl (Error (''Timed out waiting for element: '' @ sel))),
        callbackRuns = k, resolveCalls = 0, rejectCalls = 1\<rparr>"
  by (simp add: waitForElement_run_def waitForElement_start_def waitForElement_waiting
        waitForElement_idle waiter_defs)

lemma waitForElement_run_waiting:
  "waitForElement_run sel None (replicate k (Mutation None))
     = \<lparr>observing = True, timerArmed = True, settled = None,
        callbackRuns = k, resolveCalls = 0, rejectCalls = 0\<rparr>"
  by (simp add: waitForElement_run_def waitForElement_start_def waitForElement_waiting
        waiter_defs)

lemma waitForElementRemoval_idle:
  "\<not> observing w \<Longrightarrow> \<not> timerArmed w \<Longrightarrow> foldl (waitForElementRemoval_step sel) w evs = w"
proof (induction evs)
  case Nil
  then show ?case by simp
next
  case (Cons ev evs)
  then show ?case by (cases ev) simp_all
qed

lemma waitForElementRemoval_waiting:
  "observing w \<Longrightarrow>
     foldl (waitForElementRemoval_step sel) w (map (\<lambda>x. Mutation (Some x)) xs)
       = w\<lparr>callbackRuns := callbackRuns w + length xs\<rparr>"
  by (induction xs arbitrary: w) simp_all

lemma waitForElementRemoval_step_inv:
  assumes "observing w = (settled w = None)" "timerArmed w = (settled w = None)"
    "resolveCalls w + rejectCalls w = (if settled w = None then 0 else 1)"
  shows "observing (waitForElementRemoval_step sel w ev)
           = (settled (waitForElementRemoval_step sel w ev) = None)
       \<and> timerArmed (waitForElementRemoval_step sel w ev)
           = (settled (waitForElementRemoval_step sel w ev) = None)
       \<and> resolveCalls (waitForElementRemoval_step sel w ev)
           + rejectCalls (waitForElementRemoval_step sel w ev)
           = (if settled (waitForElementRemoval_step sel w ev) = None then 0 else 1)"
proof (cases ev)
  case (Mutation found)
  with assms show ?thesis by (cases found) (auto simp add: waiter_defs)
next
  case TimerDue
  with assms show ?thesis by (auto simp add: waiter_defs)
qed

lemma waitForElementRemoval_foldl_inv:
  assumes "observing w = (settled w = None)" "timerArmed w = (settled w = None)"
    "resolveCalls w + rejectCalls w = (if settled w = None then 0 else 1)"
  shows "observing (foldl (waitForElementRemoval_step sel) w evs)
           = (settled (foldl (waitForElementRemoval_step sel) w evs) = None)
       \<and> timerArmed (foldl (waitForElementRemoval_step sel) w evs)
           = (settled (foldl (waitForElementRemoval_step sel) w evs) = None)
       \<and> resolveCalls (foldl (waitForElementRemoval_step sel) w evs)
           + rejectCalls (foldl (waitForElementRemoval_step sel) w evs)
           = (if settled (foldl (waitForElementRemoval_step sel) w evs) = None then 0 else 1)"
  using assms
proof (induction evs arbitrary: w)
  case Nil
  then show ?case by simp
next
  case (Cons ev evs)
  from waitForElementRemoval_step_inv [OF Cons.prems, of sel ev]
  show ?case by (simp add: Cons.IH)
qed

lemma waitForElementRemoval_run_inv:
  "observing (waitForElementRemoval_run sel found evs)
     = (settled (waitForElementRemoval_run sel found evs) = None)
   \<and> timerArmed (waitForElementRemoval_run sel found evs)
     = (settled (waitForElementRemoval_run sel found evs) = None)
   \<and> resolveCalls (waitForElementRemoval_run sel found evs)
       + rejectCalls (waitForElementRemoval_run sel found evs)
       = (if settled (waitForElementRemoval_run sel found evs) = None then 0 else 1)"
  unfolding waitForElementRemoval_run_def
  by (rule waitForElementRemoval_foldl_inv; cases found)
     (simp_all add: waitForElementRemoval_start_def waiter_defs)

lemma waitForElementRemoval_run_None:
  "waitForElementRemoval_run sel None evs
     = \<lparr>observing = False, timerArmed = False, settled = Some (Inr ()),
        callbackRuns = 0, resolveCalls = 1, rejectCalls = 0\<rparr>"
  by (simp add: waitForElementRemoval_run_def waitForElementRemoval_start_def
        waitForElementRemoval_idle waiter_defs)

lemma waitForElementRemoval_run_gone:
  "waitForElementRemoval_run sel (Some x) (map (\<lambda>x. Mutation (Some x)) xs @ Mutation None # evs)
     = \<lparr>observing = False, timerArmed = False, settled = Some (Inr ()),
        callbackRuns = Suc (length xs), resolveCalls = 1, rejectCalls = 0\<rparr>"
  by (simp add: waitForElementRemoval_run_def waitForElementRemoval_start_def
        waitForElementRemoval_waiting waitForElementRemoval_idle waiter_defs)

lemma waitForElementRemoval_run_due:
  "waitForElementRemoval_run sel (Some x) (map (\<lambda>x. Mutation (Some x)) xs @ TimerDue # evs)
     = \<lparr>observing = False, timerArmed = False,
        settled = Some (Inl (Error (''Timed out waiting for element removal: '' @ sel))),
        callbackRuns = length xs, resolveCalls = 0, rejectCalls = 1\<rparr>"
  by (simp add: waitForElementRemoval_run_def waitForElementRemoval_start_def
        waitForElementRemoval_waiting waitForElementRemoval_idle waiter_defs)

lemma waitForElementRemoval_run_waiting:
  "waitForElementRemoval_run sel (Some x) (map (\<lambda>x. Mutation (Some x)) xs)
     = \<lparr>observing = True, timerArmed = True, settled = None,
        callbackRuns = length xs, resolveCalls = 0, rejectCalls = 0\<rparr>"
  by (simp add: waitForElementRemoval_run_def waitForElementRemoval_start_def
        waitForElementRemoval_waiting waiter_defs)

text \<open>Once the timer was due a wait is settled, whatever happened before.\<close>

lemma waitForElement_settles:
  "settled (waitForElement_run sel found (evs @ [TimerDue])) \<noteq> None"
proof -
  have "timerArmed (waitForElement_run sel found evs)
          = (settled (waitForElement_run sel found evs) = None)"
    using waitForElement_run_inv by blast
  then show ?thesis
    by (auto simp add: waitForElement_run_def waiter_defs)
qed

lemma waitForElementRemoval_settles:
  "settled (waitForElementRemoval_run sel found (evs @ [TimerDue])) \<noteq> None"
proof -
  have "timerArmed (waitForElementRemoval_run sel found evs)
          = (settled (waitForElementRemoval_run sel found evs) = None)"
    using waitForElementRemoval_run_inv by blast
  then show ?thesis
    by (auto simp add: waitForElementRemoval_run_def waiter_defs)
qed

lemma waitForElement_at_call:
  "atCall p = Some e \<Longrightarrow> waitForElement sel t p = Inr e"
  by (simp add: waitForElement_def waitForElement_run_Some await_def)



text \<open>
  Claim C6. \<open>waitForElement\<close>: when the selector matches at the call, the promise is
  resolved with that element, no callback of the observer ever runs, and no later event
  changes anything. Otherwise the callback runs on every change that does not show the
  element; the first change that shows it resolves the promise with it, and the timer, if
  it is due first, rejects the promise with the timeout error and disconnects the
  observer, after which no callback runs. \<open>resolve\<close> and \<open>reject\<close> are called at most
  once together, and observer and timer are live exactly as long as the promise is not
  settled. \<open>waitForElementRemoval\<close> does the same with the match turned around, and
  resolves with no value.
\<close>

theorem waits_settle_once:
  "waitForElement_run sel (Some e) evs
     = \<lparr>observing = False, timerArmed = False, settled = Some (Inr e),
        callbackRuns = 0, resolveCalls = 1, rejectCalls = 0\<rparr>
   \<and> waitForElement_run sel None (replicate k (Mutation None))
     = \<lparr>observing = True, timerArmed = True, settled = None,
        callbackRuns = k, resolveCalls = 0, rejectCalls = 0\<rparr>
   \<and> waitForElement_run sel None (replicate k (Mutation None) @ Mutation (Some e) # evs)
     = \<lparr>observing = False, timerArmed = False, settled = Some (Inr e),
        callbackRuns = Suc k, resolveCalls = 1, rejectCalls = 0\<rparr>
   \<and> waitForElement_run sel None (replicate k (Mutation None) @ TimerDue # evs)
     = \<lparr>observing = False, timerArmed = False,
        settled = Some (Inl (Error (''Timed out waiting for element: '' @ sel))),
        callbackRuns = k, resolveCalls = 0, rejectCalls = 1\<rparr>
   \<and> resolveCalls (waitForElement_run sel found evs)
       + rejectCalls (waitForElement_run sel found evs) \<le> 1
   \<and> observing (waitForElement_run sel found evs)
       = (settled (waitForElement_run sel found evs) = None)
   \<and> timerArmed (waitForElement_run sel found evs)
       = (settled (waitForElement_run sel found evs) = None)
   \<and> waitForElementRemoval_run sel None evs
     = \<lparr>observing = False, timerArmed = False, settled = Some (Inr ()),
        callbackRuns = 0, resolveCalls = 1, rejectCalls = 0\<rparr>
   \<and> waitForElementRemoval_run sel (Some x) (map (\<lambda>x. Mutation (Some x)) xs)
     = \<lparr>observing = True, timerArmed = True, settled = None,
        callbackRuns = length xs, resolveCalls = 0, rejectCalls = 0\<rparr>
   \<and> waitForElementRemoval_run sel (Some x) (map (\<lambda>x. Mutation (Some x)) xs @ Mutation None # evs)
     = \<lparr>observing = False, timerArmed = False, settled = Some (Inr ()),
        callbackRuns = Suc (length xs), resolveCalls = 1, rejectCalls = 0\<rparr>
   \<and> waitForElementRemoval_run sel (Some x) (map (\<lambda>x. Mutation (Some x)) xs @ TimerDue # evs)
     = \<lparr>observing = False, timerArmed = False,
        settled = Some (Inl (Error (''Timed out waiting for element removal: '' @ sel))),
        callbackRuns = length xs, resolveCalls = 0, rejectCalls = 1\<rparr>
   \<and> resolveCalls (waitForElementRemoval_run sel found evs)
       + rejectCalls (waitForElementRemoval_run sel found evs) \<le> 1
   \<and> observing (waitForElementRemoval_run sel found evs)
       = (settled (waitForElementRemoval_run sel found evs) = None)
   \<and> timerArmed (waitForElementRemoval_run sel found evs)
       = (settled (waitForElementRemoval_run sel found evs) = None)"
proof -
  have a: "resolveCalls (waitForElement_run sel found evs)
            + rejectCalls (waitForElement_run sel found evs) \<le> 1"
    using waitForElement_run_inv [of sel found evs] by (simp split: if_splits)
  have b: "resolveCalls (waitForElementRemoval_run sel found evs)
            + rejectCalls (waitForElementRemoval_run sel found evs) \<le> 1"
    using waitForElementRemoval_run_inv [of sel found evs] by (simp split: if_splits)
  show ?thesis
    using a b waitForElement_run_inv [of sel found evs]
      waitForElementRemoval_run_inv [of sel found evs]
    by (simp only: waitForElement_run_Some waitForElement_run_waiting waitForElement_run_found
          waitForElement_run_due waitForElementRemoval_run_None
          waitForElementRemoval_run_waiting waitForElementRemoval_run_gone
          waitForElementRemoval_run_due simp_thms)
qed

subsection \<open>RelationshipConverter\<close>

lemma recoverDialog_returns: "fst (recoverDialog item) = Inr ()"
  by (simp add: recoverDialog_def fst_bind fst_catch split: sum.splits)


lemma convertItem_result:
  "fst (convertItem item n) =
     Inr (Suc n,
          if editButton item
          then (case fst (convertInDialog item) of Inl e \<Rightarrow> Failed | Inr u \<Rightarrow> Converted)
          else Unactionable)"
  by (simp add: convertItem_def fst_bind fst_catch recoverDialog_returns split: sum.splits)

lemma convertItems_result:
  "fst (convertItems items st) =
     Inr (fst st + length items,
          snd st @ map (\<lambda>item. if editButton item
                                then (case fst (convertInDialog item) of
                                        Inl e \<Rightarrow> Failed | Inr u \<Rightarrow> Converted)
                                else Unactionable) items)"
  by (induction items arbitrary: st) (simp_all add: fst_bind convertItem_result)

lemma convertRows_result:
  "fst (convertRows rows st) =
     Inr (fst st + length (concat rows), fst (snd st) + length (concat rows),
          snd (snd st) @ map (\<lambda>item. if editButton item
                                      then (case fst (convertInDialog item) of
                                              Inl e \<Rightarrow> Failed | Inr u \<Rightarrow> Converted)
                                      else Unactionable) (concat rows))"
  by (induction rows arbitrary: st) (simp_all add: fst_bind convertItems_result)

lemma removeItem_result:
  "fst (removeItem item ok) = Inr (if removeButton item then (ok, Removed) else (False, Failed))"
  by (simp add: removeItem_def fst_bind fst_catch)

lemma removeItems_result:
  "fst (removeItems items st) =
     Inr (fst st \<and> list_all removeButton items,
          snd st @ map (\<lambda>item. if removeButton item then Removed else Failed) items)"
  by (induction items arbitrary: st) (auto simp add: fst_bind removeItem_result)

lemma removeRows_result:
  "fst (removeRows rows st) =
     Inr (fst st \<and> list_all removeButton (concat rows),
          snd st @ map (\<lambda>item. if removeButton item then Removed else Failed) (concat rows))"
  by (induction rows arbitrary: st) (auto simp add: fst_bind removeItems_result)

subsection \<open>ConversionOrchestrator\<close>

lemma convertAll_handled:
  "fst (convertAll pg url) = Inr r \<Longrightarrow>
     fst r \<and> length (snd r) = length (concat (case relationshipEditor pg of None \<Rightarrow> [] | Some rows \<Rightarrow> rows))"
  by (auto simp add: convertAll_def fst_bind convertRows_result addMessageToEditNote_def
           split: sum.splits option.splits if_splits)

lemma removeAll_result:
  "fst (removeAll pg) =
     Inr (list_all removeButton (concat (case relationshipEditor pg of None \<Rightarrow> [] | Some rows \<Rightarrow> rows)),
          map (\<lambda>item. if removeButton item then Removed else Failed)
            (concat (case relationshipEditor pg of None \<Rightarrow> [] | Some rows \<Rightarrow> rows)))"
  by (simp add: removeAll_def removeRows_result split: option.splits)

lemma submitEdit_returns: "fst (submitEdit pg) = Inr ()"
  by (simp add: submitEdit_def fst_bind)

lemma fixLinkURLEdit_result:
  "fst (fixLinkURLEdit pg url) =
     Inr (case fst (convertAll pg url) of
            Inr r \<Rightarrow> \<lparr>conversionSuccessful = True, allHandled = True, outcomes = snd r\<rparr>
          | Inl e \<Rightarrow>
              \<lparr>conversionSuccessful = False,
               allHandled = fst (projr (fst (removeAll pg))),
               outcomes = snd (projr (fst (removeAll pg)))\<rparr>)"
proof (cases "fst (convertAll pg url)")
  case (Inl e)
  then show ?thesis
    by (simp add: fixLinkURLEdit_def fst_bind fst_catch removeAll_result submitEdit_returns)
next
  case (Inr r)
  then have "fst r" using convertAll_handled by blast
  with Inr show ?thesis
    by (simp add: fixLinkURLEdit_def fst_bind fst_catch submitEdit_returns)
qed

text \<open>
  Whenever the conversion has succeeded the script finds all relationships handled: the
  branch that would withhold the submission is never taken.
\<close>

lemma allHandled_after_conversion:
  "fst (fixLinkURLEdit pg url) = Inr v \<Longrightarrow> conversionSuccessful v \<Longrightarrow> allHandled v"
  by (auto simp add: fixLinkURLEdit_result split: sum.splits)



text \<open>
  Claim C1, at the input on which the script departs from it. The page has three
  relationship items; the lookup succeeds; the dialog of the second item never opens, so
  its wait runs into the timeout and the \<open>catch\<close> block counts the item. The script
  ends with \<open>conversionSuccessful\<close> and \<open>allRelationshipsHandled\<close> both true, and its last
  action is the click on the submit button.
\<close>

theorem fixLinkURLEdit_submits_after_failed_item:
  "fst (fixLinkURLEdit examplePage exampleUrl)
     = Inr \<lparr>conversionSuccessful = True, allHandled = True,
            outcomes = [Converted, Failed, Converted]\<rparr>
   \<and> last (snd (fixLinkURLEdit examplePage exampleUrl)) = Click SubmitButton"
proof
  show "fst (fixLinkURLEdit examplePage exampleUrl)
          = Inr \<lparr>conversionSuccessful = True, allHandled = True,
                 outcomes = [Converted, Failed, Converted]\<rparr>"
    by code_simp
  show "last (snd (fixLinkURLEdit examplePage exampleUrl)) = Click SubmitButton"
    by code_simp
qed

subsection \<open>IdentifierResolver\<close>

text \<open>
  Claim C9. There is an input of the shape of a Wikipedia article URL, with a malformed
  percent-encoding in its title (\<open>%E\<close> at the end), on which \<open>parseWikipediaUrl\<close> throws
  the URIError of \<open>decodeURIComponent\<close> instead of returning \<open>null\<close>; the error leaves
  \<open>getWikidataUrlFromWikipedia\<close> as it is, neither as the error of an invalid format nor
  wrapped by the \<open>catch\<close> block, and before any request is made.
\<close>

theorem parseWikipediaUrl_throws_URIError:
  "\<exists>url. isWikipediaLink url
     \<and> parseWikipediaUrl url = Inl (URIError ''URI malformed'')
     \<and> (\<forall>net. getWikidataUrlFromWikipedia net url = (Inl (URIError ''URI malformed''), []))"
proof (intro exI conjI allI)
  show "isWikipediaLink (js ''https://en.wikipedia.org/wiki/%E'')"
    by code_simp
  show p: "parseWikipediaUrl (js ''https://en.wikipedia.org/wiki/%E'')
             = Inl (URIError ''URI malformed'')"
    by code_simp
  fix net
  show "getWikidataUrlFromWikipedia net (js ''https://en.wikipedia.org/wiki/%E'')
          = (Inl (URIError ''URI malformed''), [])"
    by (simp only: getWikidataUrlFromWikipedia_def p sum.case)
qed

lemma literal_Cons_Some:
  "literal (p # ps) s = Some t
     \<longleftrightarrow> (\<exists>c cs. s = c # cs \<and> canon c = of_char p \<and> literal ps cs = Some t)"
  by (cases s) auto


lemma wikidataTail_not_wikipedia:
  assumes "wikidataTail r"
  shows "literal ''.wikipedia.org'' (dropWhile is_letter r) = None"
proof -
  from assms obtain d where "literal ''wikidata.org/wiki/q'' r = Some d"
    by (auto simp: wikidataTail_def split: option.splits)
  then obtain c1 c2 c3 c4 c5 c6 c7 c8 c9 c10 rest where
    r: "r = c1 # c2 # c3 # c4 # c5 # c6 # c7 # c8 # c9 # c10 # rest"
    and c: "canon c1 = 0x77" "canon c2 = 0x69" "canon c3 = 0x6B" "canon c4 = 0x69"
       "canon c5 = 0x64" "canon c6 = 0x61" "canon c7 = 0x74" "canon c8 = 0x61"
       "canon c9 = 0x2E" "canon c10 = 0x6F"
    by (auto simp: literal_Cons_Some)
  show ?thesis
    by (simp add: r c is_letter_def)
qed

lemma www_wikidataTail_not_wikipedia:
  assumes "literal ''www.'' r = Some r'" "wikidataTail r'"
  shows "literal ''.wikipedia.org'' (dropWhile is_letter r) = None"
proof -
  from assms(2) obtain d where "literal ''wikidata.org/wiki/q'' r' = Some d"
    by (auto simp: wikidataTail_def split: option.splits)
  then obtain c1 c2 c3 c4 c5 rest where
    r': "r' = c1 # c2 # c3 # c4 # c5 # rest"
    and c: "canon c1 = 0x77" "canon c2 = 0x69" "canon c3 = 0x6B" "canon c4 = 0x69"
       "canon c5 = 0x64"
    by (auto simp: literal_Cons_Some)
  from assms(1) obtain w1 w2 w3 w4 where
    r: "r = w1 # w2 # w3 # w4 # r'"
    and w: "canon w1 = 0x77" "canon w2 = 0x77" "canon w3 = 0x77" "canon w4 = 0x2E"
    by (auto simp: literal_Cons_Some)
  show ?thesis
    by (simp add: r r' c w is_letter_def)
qed

lemma wikidata_not_wikipedia_rest:
  assumes "isWikidataLink u" "scheme u = Some r"
  shows "literal ''.wikipedia.org'' (dropWhile is_letter r) = None"
  using assms wikidataTail_not_wikipedia www_wikidataTail_not_wikipedia
  by (auto simp: isWikidataLink_def split: option.splits)

text \<open>No string matches both expressions: the second test of the guard never decides.\<close>

lemma isWikidataLink_not_isWikipediaLink:
  "isWikidataLink u \<Longrightarrow> \<not> isWikipediaLink u"
  using wikidata_not_wikipedia_rest
  by (auto simp: isWikipediaLink_def split: option.splits)










subsection \<open>The guard against pending edits\<close>

text \<open>
  Claim C7. When the marker of pending edits is in the header at the start,
  \<open>runOnURLEditPage\<close> makes no request, neither directly nor through the rate-limited
  channel, invokes no control and writes no value, and returns without a conversion; on
  a page whose URL input holds a Wikipedia link all it does is display the error of the
  pending edits.
\<close>

theorem pending_marker_stops_the_run:
  assumes "atCall (pendingMarker pg) = Some marker"
  shows "fst (runOnURLEditPage pg) = Inr None
       \<and> networkCalls (snd (runOnURLEditPage pg)) = 0
       \<and> mutationCalls (snd (runOnURLEditPage pg)) = 0
       \<and> (\<forall>v. urlInput pg = Some v \<and> isWikipediaLink v
             \<longrightarrow> snd (runOnURLEditPage pg) = [DisplayError pendingMessage])"
proof -
  have w: "waitForElement ''div.urlheader h1 span.mp'' 1000 (pendingMarker pg) = Inr marker"
    using assms by (rule waitForElement_at_call)
  show ?thesis
  proof (cases "urlInput pg")
    case None
    then show ?thesis
      by (simp add: runOnURLEditPage_def networkCalls_def mutationCalls_def)
  next
    case (Some v)
    show ?thesis
    proof (cases "isWikipediaLink v")
      case False
      with Some show ?thesis
        by (simp add: runOnURLEditPage_def networkCalls_def mutationCalls_def)
    next
      case True
      show ?thesis
      proof (cases "isWikidataLink v")
        case True
        with Some show ?thesis
          using isWikidataLink_not_isWikipediaLink [of v]
          by (simp add: runOnURLEditPage_def networkCalls_def mutationCalls_def)
      next
        case False
        with Some True w show ?thesis
          by (simp add: runOnURLEditPage_def networkCalls_def mutationCalls_def
                fst_bind snd_bind fst_catch snd_catch)
      qed
    qed
  qed
qed

theorem pending_marker_stops_the_run_witness:
  "atCall (pendingMarker (examplePage\<lparr>pendingMarker := \<lparr>atCall = Some 3, changes = []\<rparr>\<rparr>)) = Some 3
   \<and> runOnURLEditPage (examplePage\<lparr>pendingMarker := \<lparr>atCall = Some 3, changes = []\<rparr>\<rparr>)
       = (Inr None, [DisplayError pendingMessage])"
proof -
  have h: "atCall (pendingMarker (examplePage\<lparr>pendingMarker := \<lparr>atCall = Some 3, changes = []\<rparr>\<rparr>))
             = Some 3"
    by simp
  have u: "urlInput (examplePage\<lparr>pendingMarker := \<lparr>atCall = Some 3, changes = []\<rparr>\<rparr>)
             = Some exampleUrl"
    by (simp add: examplePage_def)
  have l: "isWikipediaLink exampleUrl"
    by code_simp
  from pending_marker_stops_the_run [OF h] u l
  show ?thesis by (simp add: prod_eq_iff)
qed

subsection \<open>RateLimitedDispatcher\<close>

lemma queue_after_result [simp]:
  "result (snd (rateLimitedQueue I q c)) = Inr ()"
  by (simp add: rateLimitedQueue_def then2_def delay_def split: sum.splits)

lemma queue_after_settledAt [simp]:
  "settledAt (snd (rateLimitedQueue I q c)) = max (at c) (settledAt q) + I + late c"
  by (simp add: rateLimitedQueue_def then2_def delay_def handlerTime_def split: sum.splits)

lemma dispatch_started [simp]:
  "result q = Inr () \<Longrightarrow>
     started (fst (rateLimitedQueue I q c)) = Some (max (at c) (settledAt q))"
  by (simp add: rateLimitedQueue_def handlerTime_def)

lemma dispatch_returned [simp]:
  "result q = Inr () \<Longrightarrow>
     returned (fst (rateLimitedQueue I q c))
       = \<lparr>settledAt = max (at c) (settledAt q) + duration c, result = outcome c\<rparr>"
  by (simp add: rateLimitedQueue_def then1_def then2_def operation_def handlerTime_def)

lemma length_limitedCalls [simp]:
  "length (limitedCalls I L cs) = length cs"
  by (induction cs arbitrary: L) simp_all




lemma laneCount_step [simp]:
  "laneCount (snd (limitedCall I L c)) = laneCount L"
  by (cases L) (simp_all add: limitedCall_def)


























end
